theory Spec2Isabelle
  imports Main "HOL-Library.Sublist"
begin

section \<open>Python values and string helpers\<close>

text \<open>
  A Python \<^verbatim>\<open>str\<close> is modelled by its UTF-8 bytes; the helpers below are the \<^verbatim>\<open>str\<close>
  methods the service calls. Prefix tests, splitting at a comma and replacing a space work
  on the bytes as they do on the characters, since an ASCII byte never occurs inside the
  encoding of another character.
\<close>

type_synonym bytes = string

definition startswith :: "string \<Rightarrow> string \<Rightarrow> bool" where
  "startswith s p = (take (length p) s = p)"

definition lower_char :: "char \<Rightarrow> char" where
  "lower_char c =
     (if 65 \<le> (of_char c :: nat) \<and> (of_char c :: nat) \<le> 90
      then char_of ((of_char c :: nat) + 32) else c)"

definition is_ascii :: "string \<Rightarrow> bool" where
  "is_ascii s = list_all (\<lambda>c. (of_char c :: nat) < 128) s"

definition latin1 :: "string \<Rightarrow> bool" where
  \<comment> \<open>every character is at most U+00FF, so that \<^verbatim>\<open>s.encode('latin-1', 'strict')\<close>
      succeeds: no byte starts the encoding of a character from U+0100 on\<close>
  "latin1 s = list_all (\<lambda>c. (of_char c :: nat) < 196) s"

definition replace_char :: "char \<Rightarrow> char \<Rightarrow> string \<Rightarrow> string" where
  \<comment> \<open>\<^verbatim>\<open>s.replace(a, b)\<close> for one-character \<^verbatim>\<open>a\<close> and \<^verbatim>\<open>b\<close>\<close>
  "replace_char a b s = map (\<lambda>c. if c = a then b else c) s"

definition split_once :: "char \<Rightarrow> string \<Rightarrow> string list" where
  \<comment> \<open>\<^verbatim>\<open>s.split(sep, 1)\<close> for a one-character separator\<close>
  "split_once sep s =
     (if sep \<in> set s
      then [takeWhile (\<lambda>c. c \<noteq> sep) s, tl (dropWhile (\<lambda>c. c \<noteq> sep) s)]
      else [s])"

definition digit_char :: "nat \<Rightarrow> char" where
  "digit_char d = char_of (48 + d)"

function str_nat :: "nat \<Rightarrow> string" where
  "str_nat n = (if n < 10 then [digit_char n] else str_nat (n div 10) @ [digit_char (n mod 10)])"
  by pat_completeness auto
termination
  by (relation "measure id") auto

declare str_nat.simps [simp del]

definition str_int :: "int \<Rightarrow> string" where
  "str_int i = (if i < 0 then CHR ''-'' # str_nat (nat (- i)) else str_nat (nat i))"

definition nl :: string where
  "nl = [CHR 0x0A]"

fun join_lines :: "string list \<Rightarrow> string" where
  "join_lines [] = []"
| "join_lines [l] = l"
| "join_lines (l # ls) = l @ nl @ join_lines ls"

text \<open>
  JSON values: what \<^verbatim>\<open>json.loads\<close> returns and what a response body is built from.
  An object is an association list, looked up with \<open>map_of\<close>; numbers are integers (the
  service neither reads nor writes a fractional number).
\<close>

datatype json =
    JNull
  | JBool bool
  | JNum int
  | JStr string
  | JList "json list"
  | JObj "(string \<times> json) list"

fun truthy :: "json \<Rightarrow> bool" where
  "truthy JNull = False"
| "truthy (JBool b) = b"
| "truthy (JNum n) = (n \<noteq> 0)"
| "truthy (JStr s) = (s \<noteq> [])"
| "truthy (JList xs) = (xs \<noteq> [])"
| "truthy (JObj kvs) = (kvs \<noteq> [])"

fun type_name :: "json \<Rightarrow> string" where
  "type_name JNull = ''NoneType''"
| "type_name (JBool _) = ''bool''"
| "type_name (JNum _) = ''int''"
| "type_name (JStr _) = ''str''"
| "type_name (JList _) = ''list''"
| "type_name (JObj _) = ''dict''"

definition py_get :: "(string \<times> json) list \<Rightarrow> string \<Rightarrow> json \<Rightarrow> json" where
  \<comment> \<open>\<^verbatim>\<open>d.get(key, default)\<close>\<close>
  "py_get d k dflt = (case map_of d k of None \<Rightarrow> dflt | Some v \<Rightarrow> v)"

fun jfield :: "string \<Rightarrow> json \<Rightarrow> json option" where
  "jfield k (JObj kvs) = map_of kvs k"
| "jfield k _ = None"

fun jpath :: "string list \<Rightarrow> json \<Rightarrow> json option" where
  "jpath [] j = Some j"
| "jpath (k # ks) j = (case jfield k j of None \<Rightarrow> None | Some v \<Rightarrow> jpath ks v)"

section \<open>Exceptions and responses\<close>

text \<open>
  \<open>HTTPException\<close> is FastAPI's exception with a status code and a detail;
  \<open>PyError\<close> is any other exception, carrying the text \<^verbatim>\<open>str(e)\<close> gives.
\<close>

datatype exn = HTTPException nat string | PyError string

definition AttributeError :: "json \<Rightarrow> string \<Rightarrow> exn" where
  "AttributeError v attr =
     PyError ([CHR 0x27] @ type_name v @ [CHR 0x27] @ '' object has no attribute '' @
              [CHR 0x27] @ attr @ [CHR 0x27])"

definition KeyError :: "string \<Rightarrow> exn" where
  "KeyError k = PyError ([CHR 0x27] @ k @ [CHR 0x27])"

text \<open>
  What the client receives: a JSON body with a status, or an error with a status and a
  message (FastAPI turns a raised \<open>HTTPException\<close> into one; \<^verbatim>\<open>send_error\<close> writes one).
  The message is the text, whatever bytes carry it on the wire.
\<close>

datatype response = JSONResponse nat json | ErrorResponse nat string

fun status_code :: "response \<Rightarrow> nat" where
  "status_code (JSONResponse c _) = c"
| "status_code (ErrorResponse c _) = c"

text \<open>
  \<^verbatim>\<open>BaseHTTPRequestHandler.send_error(code, message)\<close> puts the message into the status
  line, which \<^verbatim>\<open>send_response_only\<close> encodes with \<^verbatim>\<open>.encode('latin-1', 'strict')\<close> before
  anything is written: a message with a character above U+00FF raises
  \<^verbatim>\<open>UnicodeEncodeError\<close> and nothing is sent. (The text of that exception also names the
  character and its position; where it is raised below nothing reads it.)
\<close>

definition UnicodeEncodeError :: exn where
  "UnicodeEncodeError =
     PyError ([CHR 0x27] @ ''latin-1'' @ [CHR 0x27] @ '' codec can'' @ [CHR 0x27] @
              ''t encode character: ordinal not in range(256)'')"

definition send_error :: "nat \<Rightarrow> string \<Rightarrow> exn + response" where
  "send_error code message =
     (if latin1 message then Inr (ErrorResponse code message) else Inl UnicodeEncodeError)"

section \<open>The embed template\<close>

definition embed_head :: "string list" where
  \<open>embed_head =
   [''<!-- Cinematic Landing Page Video - Optimized by CinematicLandingPage.com -->'',
    ''<div class="cinematic-hero" style="position: relative; width: 100%; height: 100vh; overflow: hidden;">'',
    ''  <video '',
    ''    style="'',
    ''      position: absolute;'',
    ''      top: 50%;'',
    ''      left: 50%;'',
    ''      min-width: 100%;'',
    ''      min-height: 100%;'',
    ''      width: auto;'',
    ''      height: auto;'',
    ''      transform: translate(-50%, -50%);'',
    ''      object-fit: cover;'',
    ''      z-index: -1;'',
    ''    "'',
    ''    autoplay '',
    ''    muted '',
    ''    loop '',
    ''    playsinline '',
    ''    preload="auto"'']\<close>

definition embed_tail :: "string list" where
  \<open>embed_tail =
   [''    Your browser does not support the video tag.'',
    ''  </video>'',
    ''  '',
    ''  <!-- Your content goes here -->'',
    ''  <div style="position: relative; z-index: 1; padding: 2rem; color: white; text-align: center; display: flex; flex-direction: column; justify-content: center; height: 100vh;">'',
    ''    <h1 style="font-size: 3rem; margin-bottom: 1rem;">Your Landing Page Headline</h1>'',
    ''    <p style="font-size: 1.2rem; margin-bottom: 2rem;">Replace this with your actual content</p>'',
    ''    <button style="background: #007cba; color: white; border: none; padding: 1rem 2rem; border-radius: 5px; font-size: 1.1rem; cursor: pointer;">Call to Action</button>'',
    ''  </div>'',
    ''</div>'',
    [],
    ''<style>'',
    ''/* Responsive adjustments */'',
    ''@media (max-width: 768px) {'',
    ''  .cinematic-hero {'',
    ''    height: 60vh; /* Shorter on mobile to save bandwidth */'',
    ''  }'',
    ''  .cinematic-hero h1 {'',
    ''    font-size: 2rem;'',
    ''  }'',
    ''}'',
    [],
    ''/* Ensure video doesn'' @ [CHR 0x27] @ ''t interfere with content */'',
    ''.cinematic-hero video {'',
    ''  pointer-events: none;'',
    ''}'',
    ''</style>'',
    [],
    ''<!-- Performance: Video loads immediately for hero sections -->'']\<close>

definition poster_attr :: "string \<Rightarrow> string" where
  \<open>poster_attr poster_url = ''poster="'' @ poster_url @ ''"''\<close>

definition source_webm :: "string \<Rightarrow> string" where
  \<open>source_webm webm_url = ''<source src="'' @ webm_url @ ''" type="video/webm">''\<close>

definition source_mp4 :: "string \<Rightarrow> string" where
  \<open>source_mp4 mp4_url = ''<source src="'' @ mp4_url @ ''" type="video/mp4">''\<close>

definition generate_embed_code :: "string \<Rightarrow> string \<Rightarrow> string \<Rightarrow> string" where
  \<comment> \<open>main.py\<close>
  \<open>generate_embed_code mp4_url webm_url poster_url =
     join_lines (embed_head @
       [''    '' @ poster_attr poster_url @ ''>'',
        ''    '' @ source_webm webm_url,
        ''    '' @ source_mp4 mp4_url] @ embed_tail)\<close>

definition api_embed_head :: "string list" where
  \<open>api_embed_head =
   [''<!-- Cinematic Landing Page Video -->'',
    ''<div class="cinematic-hero" style="position: relative; width: 100%; height: 100vh; overflow: hidden;">'',
    ''  <video '',
    ''    style="position: absolute; top: 50%; left: 50%; min-width: 100%; min-height: 100%; width: auto; height: auto; transform: translate(-50%, -50%); object-fit: cover; z-index: -1;"'']\<close>

definition api_embed_tail :: "string list" where
  \<open>api_embed_tail =
   [''  </video>'',
    ''  <div style="position: relative; z-index: 1; padding: 2rem; color: white; text-align: center; display: flex; flex-direction: column; justify-content: center; height: 100vh;">'',
    ''    <h1 style="font-size: 3rem; margin-bottom: 1rem;">Your Landing Page Headline</h1>'',
    ''    <p style="font-size: 1.2rem; margin-bottom: 2rem;">Replace with your content</p>'',
    ''    <button style="background: #007cba; color: white; border: none; padding: 1rem 2rem; border-radius: 5px;">Call to Action</button>'',
    ''  </div>'',
    ''</div>'']\<close>

definition api_generate_embed_code :: "string \<Rightarrow> string \<Rightarrow> string \<Rightarrow> string" where
  \<comment> \<open>api/index.py\<close>
  \<open>api_generate_embed_code mp4_url webm_url poster_url =
     join_lines (api_embed_head @
       [''    autoplay muted loop playsinline preload="auto" '' @ poster_attr poster_url @ ''>'',
        ''    '' @ source_webm webm_url,
        ''    '' @ source_mp4 mp4_url] @ api_embed_tail)\<close>

section \<open>The embed functions as Python evaluates them\<close>

text \<open>
  To say what a call of \<^verbatim>\<open>generate_embed_code\<close> reads, its body is also given as the
  f-string it is: literal text and replacement fields. A field \<^verbatim>\<open>{name}\<close> is looked up as
  Python resolves a name, first among the locals of the call and then among the names
  visible outside it (module globals and builtins, here \<open>globals\<close>); an unbound name raises
  \<^verbatim>\<open>NameError\<close>. The values are strings, as the three arguments are.
\<close>

datatype piece = Lit string | Field string

type_synonym scope = "string \<rightharpoonup> string"

definition NameError :: "string \<Rightarrow> exn" where
  "NameError x = PyError (''name '' @ [CHR 0x27] @ x @ [CHR 0x27] @ '' is not defined'')"

definition resolve :: "scope \<Rightarrow> scope \<Rightarrow> string \<Rightarrow> exn + string" where
  "resolve locals globals x =
     (case locals x of
        Some v \<Rightarrow> Inr v
      | None \<Rightarrow> (case globals x of Some v \<Rightarrow> Inr v | None \<Rightarrow> Inl (NameError x)))"

fun format_pieces :: "scope \<Rightarrow> scope \<Rightarrow> piece list \<Rightarrow> exn + string" where
  "format_pieces locals globals [] = Inr []"
| "format_pieces locals globals (Lit s # ps) =
     (case format_pieces locals globals ps of Inl e \<Rightarrow> Inl e | Inr r \<Rightarrow> Inr (s @ r))"
| "format_pieces locals globals (Field x # ps) =
     (case resolve locals globals x of
        Inl e \<Rightarrow> Inl e
      | Inr v \<Rightarrow>
         (case format_pieces locals globals ps of Inl e \<Rightarrow> Inl e | Inr r \<Rightarrow> Inr (v @ r)))"

definition embed_fstring :: "piece list" where
  \<comment> \<open>main.py, the f-string of lines 37-88\<close>
  \<open>embed_fstring =
     [Lit (join_lines embed_head @ nl @ ''    poster="''), Field ''poster_url'',
      Lit (''">'' @ nl @ ''    <source src="''), Field ''webm_url'',
      Lit (''" type="video/webm">'' @ nl @ ''    <source src="''), Field ''mp4_url'',
      Lit (''" type="video/mp4">'' @ nl @ join_lines embed_tail)]\<close>

definition api_embed_fstring :: "piece list" where
  \<comment> \<open>api/index.py, the f-string of lines 18-31\<close>
  \<open>api_embed_fstring =
     [Lit (join_lines api_embed_head @ nl @
           ''    autoplay muted loop playsinline preload="auto" poster="''),
      Field ''poster_url'',
      Lit (''">'' @ nl @ ''    <source src="''), Field ''webm_url'',
      Lit (''" type="video/webm">'' @ nl @ ''    <source src="''), Field ''mp4_url'',
      Lit (''" type="video/mp4">'' @ nl @ join_lines api_embed_tail)]\<close>

definition parameters :: "string \<Rightarrow> string \<Rightarrow> string \<Rightarrow> scope" where
  \<comment> \<open>the locals of a call: the three parameters bound to the arguments\<close>
  "parameters mp4_url webm_url poster_url =
     [''mp4_url'' \<mapsto> mp4_url, ''webm_url'' \<mapsto> webm_url, ''poster_url'' \<mapsto> poster_url]"

definition call_generate_embed_code ::
  "scope \<Rightarrow> string \<Rightarrow> string \<Rightarrow> string \<Rightarrow> exn + string" where
  \<comment> \<open>main.py 34-90: the f-string is bound to the local \<^verbatim>\<open>embed_code\<close>, which is returned\<close>
  "call_generate_embed_code globals mp4_url webm_url poster_url =
     (let locals = parameters mp4_url webm_url poster_url
      in case format_pieces locals globals embed_fstring of
           Inl e \<Rightarrow> Inl e
         | Inr text \<Rightarrow> resolve (locals(''embed_code'' \<mapsto> text)) globals ''embed_code'')"

definition call_api_generate_embed_code ::
  "scope \<Rightarrow> string \<Rightarrow> string \<Rightarrow> string \<Rightarrow> exn + string" where
  \<comment> \<open>api/index.py 17-31: the f-string is returned\<close>
  "call_api_generate_embed_code globals mp4_url webm_url poster_url =
     format_pieces (parameters mp4_url webm_url poster_url) globals api_embed_fstring"

section \<open>Health check\<close>

definition root :: response where
  \<comment> \<open>main.py, \<^verbatim>\<open>GET /\<close>: the returned dict is sent with status 200\<close>
  "root = JSONResponse 200
     (JObj [(''message'', JStr ''Cinematic Video Optimizer API is running!''),
            (''status'', JStr ''healthy'')])"

definition do_GET :: "string \<Rightarrow> response" where
  \<comment> \<open>api/index.py: the handler answers every path the same way\<close>
  "do_GET path = JSONResponse 200
     (JObj [(''message'', JStr ''Cinematic Video Optimizer API is running!''),
            (''status'', JStr ''healthy'')])"

section \<open>The provider and the file system\<close>

text \<open>
  The arguments of \<^verbatim>\<open>cloudinary.uploader.upload\<close> and the fields the service reads from
  its result. A field of the result is \<open>None\<close> when the key is missing from the dict
  (reading it raises \<^verbatim>\<open>KeyError\<close>); an entry of \<open>r_eager\<close> is the \<^verbatim>\<open>secure_url\<close> of
  one derivative.
\<close>

record upload_call =
  path :: string
  resource_type :: string
  public_id :: string
  overwrite :: bool
  eager :: "json list"
  eager_async :: bool

record upload_result =
  r_secure_url :: "string option"
  r_eager :: "string option list option"
  r_public_id :: "string option"

type_synonym fs = "string \<rightharpoonup> bytes"

text \<open>
  Everything outside the repository is a parameter: the provider's upload (\<open>Inl\<close> is the
  text of the exception it raises), the poster URL builder
  (\<^verbatim>\<open>CloudinaryImage(id).build_url(resource_type, format, transformation)\<close>), Python's
  \<^verbatim>\<open>hash\<close> on a string and on any other value, \<^verbatim>\<open>str.lower\<close> on a string with a
  character outside ASCII, \<^verbatim>\<open>base64.b64decode\<close>, the name
  \<^verbatim>\<open>tempfile.NamedTemporaryFile\<close> picks, and \<^verbatim>\<open>str\<close> of an \<open>HTTPException\<close>.
\<close>

record env =
  upload :: "fs \<Rightarrow> upload_call \<Rightarrow> string + upload_result"
  build_url :: "string \<Rightarrow> string \<Rightarrow> string \<Rightarrow> json list \<Rightarrow> string + string"
  hash_str :: "string \<Rightarrow> int"
  hash_other :: "json \<Rightarrow> string + int"
  unicode_lower :: "string \<Rightarrow> string"
  b64decode :: "string \<Rightarrow> string + bytes"
  mktemp :: "fs \<Rightarrow> string"
  http_exception_str :: "nat \<Rightarrow> string \<Rightarrow> string"

definition str_exn :: "env \<Rightarrow> exn \<Rightarrow> string" where
  "str_exn env e = (case e of HTTPException c d \<Rightarrow> http_exception_str env c d | PyError m \<Rightarrow> m)"

definition py_hash :: "env \<Rightarrow> json \<Rightarrow> exn + int" where
  "py_hash env v =
     (case v of JStr s \<Rightarrow> Inr (hash_str env s)
      | _ \<Rightarrow> (case hash_other env v of Inl m \<Rightarrow> Inl (PyError m) | Inr h \<Rightarrow> Inr h))"

definition os_unlink :: "fs \<Rightarrow> string \<Rightarrow> exn + fs" where
  "os_unlink files p =
     (if files p = None
      then Inl (PyError (''[Errno 2] No such file or directory: '' @ [CHR 0x27] @ p @ [CHR 0x27]))
      else Inr (files(p := None)))"

definition lower :: "env \<Rightarrow> string \<Rightarrow> string" where
  \<comment> \<open>\<^verbatim>\<open>s.lower()\<close>: on ASCII text only the letters A-Z change\<close>
  "lower env s = (if is_ascii s then map lower_char s else unicode_lower env s)"

definition slug :: "env \<Rightarrow> string \<Rightarrow> string" where
  \<comment> \<open>\<^verbatim>\<open>name.lower().replace(' ', '-')\<close>\<close>
  "slug env name = replace_char (CHR '' '') (CHR ''-'') (lower env name)"

definition extract_urls :: "upload_result \<Rightarrow> exn + string \<times> string" where
  \<comment> \<open>main.py 152-156 and 282-284, api/index.py 90-92: the pair (mp4_url, webm_url)\<close>
  "extract_urls upload_result =
     (case r_secure_url upload_result of
        None \<Rightarrow> Inl (KeyError ''secure_url'')
      | Some original_url \<Rightarrow>
         (case r_eager upload_result of
            None \<Rightarrow> Inl (KeyError ''eager'')
          | Some eg \<Rightarrow>
             (case (if eg \<noteq> []
                    then (case eg ! 0 of None \<Rightarrow> Inl (KeyError ''secure_url'') | Some u \<Rightarrow> Inr u)
                    else Inr original_url) of
                Inl e \<Rightarrow> Inl e
              | Inr mp4_url \<Rightarrow>
                 (case (if length eg > 1
                        then (case eg ! 1 of None \<Rightarrow> Inl (KeyError ''secure_url'') | Some u \<Rightarrow> Inr u)
                        else Inr original_url) of
                    Inl e \<Rightarrow> Inl e
                  | Inr webm_url \<Rightarrow> Inr (mp4_url, webm_url)))))"

definition poster :: "env \<Rightarrow> upload_result \<Rightarrow> json list \<Rightarrow> exn + string" where
  "poster env upload_result transformation =
     (case r_public_id upload_result of
        None \<Rightarrow> Inl (KeyError ''public_id'')
      | Some pid \<Rightarrow>
         (case build_url env pid ''image'' ''jpg'' transformation of
            Inl m \<Rightarrow> Inl (PyError m)
          | Inr u \<Rightarrow> Inr u))"

section \<open>main.py: POST /optimize-video\<close>

record upload_file =
  content_type :: "string option"
  content :: bytes

record video_form =
  videoFile :: upload_file
  projectName :: string
  customerEmail :: string

definition main_public_id :: "env \<Rightarrow> string \<Rightarrow> int \<Rightarrow> string" where
  "main_public_id env project_name h =
     ''cinematic-'' @ slug env project_name @ ''-'' @ str_int (h mod 10000)"

definition main_eager :: "json list" where
  "main_eager =
     [JObj [(''format'', JStr ''mp4''), (''quality'', JStr ''auto:eco''), (''width'', JNum 1280),
            (''height'', JNum 720), (''crop'', JStr ''scale''), (''fetch_format'', JStr ''auto''),
            (''flags'', JStr ''streaming_optimization'')],
      JObj [(''format'', JStr ''webm''), (''quality'', JStr ''auto:eco''), (''width'', JNum 1280),
            (''height'', JNum 720), (''crop'', JStr ''scale''), (''fetch_format'', JStr ''auto''),
            (''flags'', JStr ''streaming_optimization'')]]"

definition main_poster_transformation :: "json list" where
  "main_poster_transformation =
     [JObj [(''quality'', JStr ''auto:eco'')],
      JObj [(''width'', JNum 1280), (''height'', JNum 720), (''crop'', JStr ''scale'')],
      JObj [(''start_offset'', JStr ''1.0'')]]"

definition optimize_video_call :: "env \<Rightarrow> video_form \<Rightarrow> string \<Rightarrow> upload_call" where
  "optimize_video_call env form temp_file_path =
     \<lparr>path = temp_file_path, resource_type = ''video'',
      public_id = main_public_id env (projectName form) (hash_str env (customerEmail form)),
      overwrite = True, eager = main_eager, eager_async = False\<rparr>"

definition optimize_video_data :: "string \<Rightarrow> string \<Rightarrow> string \<Rightarrow> json" where
  "optimize_video_data mp4_url webm_url poster_url =
     JObj [(''success'', JBool True),
           (''message'', JStr ''Video optimized successfully!''),
           (''optimizedFiles'', JObj
              [(''mp4'', JObj [(''url'', JStr mp4_url), (''format'', JStr ''MP4 (H.264)''),
                  (''description'', JStr ''Best compatibility across all devices'')]),
               (''webm'', JObj [(''url'', JStr webm_url), (''format'', JStr ''WebM (VP9)''),
                  (''description'', JStr ''Smaller file size for modern browsers'')]),
               (''poster'', JObj [(''url'', JStr poster_url), (''format'', JStr ''JPG''),
                  (''description'', JStr ''Preview image for instant loading'')])]),
           (''embedCode'', JStr (generate_embed_code mp4_url webm_url poster_url)),
           (''instructions'', JObj
              [(''step1'', JStr ''Copy the embed code below''),
               (''step2'', JStr ''Paste it into your landing page HTML''),
               (''step3'', JStr ''Replace the placeholder content with your actual content''),
               (''step4'', JStr ''Publish and enjoy your professional video background!'')]),
           (''technicalSpecs'', JObj
              [(''resolution'', JStr ''1280x720 (720p HD)''),
               (''formats'', JList [JStr ''MP4 (broad compatibility)'', JStr ''WebM (smaller size)'']),
               (''optimization'', JStr ''Auto-quality compression''),
               (''posterImage'', JStr ''Auto-generated from video frame''),
               (''mobileOptimized'', JBool True),
               (''loadingStrategy'', JStr ''Immediate (optimized for hero sections)'')])]"

definition optimize_video_request ::
  "env \<Rightarrow> fs \<Rightarrow> video_form \<Rightarrow> (exn + upload_call) \<times> fs" where
  \<comment> \<open>lines 109-148, up to the call of the provider: the content type check, the
      temporary file and the arguments of the upload\<close>
  "optimize_video_request env files form =
     (case content_type (videoFile form) of
        None \<Rightarrow> (Inl (AttributeError JNull ''startswith''), files)
      | Some ct \<Rightarrow>
         if \<not> startswith ct ''video/''
         then (Inl (HTTPException 400 ''File must be a video''), files)
         else
           let video_content = content (videoFile form);
               temp_file_path = mktemp env files
           in (Inr (optimize_video_call env form temp_file_path),
               files(temp_file_path \<mapsto> video_content)))"

definition optimize_video_respond :: "env \<Rightarrow> upload_result \<Rightarrow> exn + json" where
  \<comment> \<open>lines 152-210: the mapping of the provider's result\<close>
  "optimize_video_respond env upload_result =
     (case extract_urls upload_result of
        Inl e \<Rightarrow> Inl e
      | Inr (mp4_url, webm_url) \<Rightarrow>
         (case poster env upload_result main_poster_transformation of
            Inl e \<Rightarrow> Inl e
          | Inr poster_url \<Rightarrow> Inr (optimize_video_data mp4_url webm_url poster_url)))"

definition optimize_video_try :: "env \<Rightarrow> fs \<Rightarrow> video_form \<Rightarrow> (exn + json) \<times> fs" where
  \<comment> \<open>the body of the outer \<^verbatim>\<open>try\<close>, lines 109-214; the \<^verbatim>\<open>finally\<close> of line 212 runs
      on both outcomes of the inner body\<close>
  "optimize_video_try env files form =
     (case optimize_video_request env files form of
        (Inl e, files1) \<Rightarrow> (Inl e, files1)
      | (Inr call, files1) \<Rightarrow>
          let outcome = (case upload env files1 call of
                           Inl m \<Rightarrow> Inl (PyError m)
                         | Inr upload_result \<Rightarrow> optimize_video_respond env upload_result)
          in (case os_unlink files1 (path call) of
                Inl e \<Rightarrow> (Inl e, files1)
              | Inr files2 \<Rightarrow> (outcome, files2)))"

definition optimize_video :: "env \<Rightarrow> fs \<Rightarrow> video_form \<Rightarrow> response \<times> fs" where
  \<comment> \<open>\<^verbatim>\<open>except Exception\<close> (line 216) catches every exception of the body, the
      \<open>HTTPException\<close> of line 111 included, and raises \<open>HTTPException 500\<close>\<close>
  "optimize_video env files form =
     (case optimize_video_try env files form of
        (Inr response_data, files') \<Rightarrow> (JSONResponse 200 response_data, files')
      | (Inl e, files') \<Rightarrow>
          (ErrorResponse 500 (''Failed to process video: '' @ str_exn env e), files'))"

section \<open>main.py: POST /optimize-video-url\<close>

definition url_eager :: "json list" where
  "url_eager =
     [JObj [(''format'', JStr ''mp4''), (''quality'', JStr ''auto:eco''), (''width'', JNum 1280),
            (''height'', JNum 720), (''crop'', JStr ''scale'')],
      JObj [(''format'', JStr ''webm''), (''quality'', JStr ''auto:eco''), (''width'', JNum 1280),
            (''height'', JNum 720), (''crop'', JStr ''scale'')]]"

definition url_public_id :: "env \<Rightarrow> json \<Rightarrow> json \<Rightarrow> exn + string" where
  \<comment> \<open>the f-string of line 260 on values read from the JSON body\<close>
  "url_public_id env project_name customer_email =
     (case project_name of
        JStr name \<Rightarrow>
          (case py_hash env customer_email of
             Inl e \<Rightarrow> Inl e
           | Inr h \<Rightarrow> Inr (main_public_id env name h))
      | _ \<Rightarrow> Inl (AttributeError project_name ''lower''))"

definition stage_data_url :: "env \<Rightarrow> fs \<Rightarrow> string \<Rightarrow> (exn + string) \<times> fs" where
  \<comment> \<open>main.py 245-251 and api/index.py 65-71: split, decode, write the temporary file\<close>
  "stage_data_url env files video_file =
     (case split_once (CHR '','') video_file of
        [header, encoded] \<Rightarrow>
          (case b64decode env encoded of
             Inl m \<Rightarrow> (Inl (PyError m), files)
           | Inr video_content \<Rightarrow>
               let temp_file_path = mktemp env files
               in (Inr temp_file_path, files(temp_file_path \<mapsto> video_content)))
      | _ \<Rightarrow> (Inl (PyError ''not enough values to unpack (expected 2, got 1)''), files))"

definition optimize_video_from_url_call :: "string \<Rightarrow> string \<Rightarrow> upload_call" where
  "optimize_video_from_url_call temp_file_path pid =
     \<lparr>path = temp_file_path, resource_type = ''video'', public_id = pid,
      overwrite = True, eager = url_eager, eager_async = False\<rparr>"

definition optimize_video_from_url_data :: "string \<Rightarrow> string \<Rightarrow> string \<Rightarrow> json" where
  "optimize_video_from_url_data mp4_url webm_url poster_url =
     JObj [(''success'', JBool True),
           (''message'', JStr ''Video optimized successfully!''),
           (''optimizedFiles'', JObj
              [(''mp4'', JObj [(''url'', JStr mp4_url)]),
               (''webm'', JObj [(''url'', JStr webm_url)]),
               (''poster'', JObj [(''url'', JStr poster_url)])]),
           (''embedCode'', JStr (generate_embed_code mp4_url webm_url poster_url))]"

definition optimize_video_from_url_request ::
  "env \<Rightarrow> fs \<Rightarrow> (string \<times> json) list \<Rightarrow> (exn + upload_call) \<times> fs" where
  \<comment> \<open>lines 235-278, up to the call of the provider\<close>
  "optimize_video_from_url_request env files video_data =
     (let video_file = py_get video_data ''videoFile'' JNull;
          project_name = py_get video_data ''projectName'' (JStr ''untitled'');
          customer_email = py_get video_data ''customerEmail'' (JStr ''anonymous'')
      in if \<not> truthy video_file
         then (Inl (HTTPException 400 ''No video file provided''), files)
         else
           (case video_file of
              JStr v \<Rightarrow>
                (case (if startswith v ''data:'' then stage_data_url env files v
                       else (Inr v, files)) of
                   (Inl e, files1) \<Rightarrow> (Inl e, files1)
                 | (Inr temp_file_path, files1) \<Rightarrow>
                     (case url_public_id env project_name customer_email of
                        Inl e \<Rightarrow> (Inl e, files1)
                      | Inr pid \<Rightarrow>
                          (Inr (optimize_video_from_url_call temp_file_path pid), files1)))
            | _ \<Rightarrow> (Inl (AttributeError video_file ''startswith''), files)))"

definition optimize_video_from_url_respond :: "env \<Rightarrow> upload_result \<Rightarrow> exn + json" where
  \<comment> \<open>lines 282-309\<close>
  "optimize_video_from_url_respond env upload_result =
     (case extract_urls upload_result of
        Inl e \<Rightarrow> Inl e
      | Inr (mp4_url, webm_url) \<Rightarrow>
         (case poster env upload_result main_poster_transformation of
            Inl e \<Rightarrow> Inl e
          | Inr poster_url \<Rightarrow> Inr (optimize_video_from_url_data mp4_url webm_url poster_url)))"

definition optimize_video_from_url_try ::
  "env \<Rightarrow> fs \<Rightarrow> (string \<times> json) list \<Rightarrow> (exn + json) \<times> fs" where
  \<comment> \<open>the body of the \<^verbatim>\<open>try\<close>, lines 235-309; the \<^verbatim>\<open>os.unlink\<close> of lines 312-313 stands
      after the \<^verbatim>\<open>return\<close> of line 309 and is never run\<close>
  "optimize_video_from_url_try env files video_data =
     (case optimize_video_from_url_request env files video_data of
        (Inl e, files1) \<Rightarrow> (Inl e, files1)
      | (Inr call, files1) \<Rightarrow>
          (case upload env files1 call of
             Inl m \<Rightarrow> (Inl (PyError m), files1)
           | Inr upload_result \<Rightarrow> (optimize_video_from_url_respond env upload_result, files1)))"

definition optimize_video_from_url ::
  "env \<Rightarrow> fs \<Rightarrow> (string \<times> json) list \<Rightarrow> response \<times> fs" where
  "optimize_video_from_url env files video_data =
     (case optimize_video_from_url_try env files video_data of
        (Inr response_data, files') \<Rightarrow> (JSONResponse 200 response_data, files')
      | (Inl e, files') \<Rightarrow>
          (ErrorResponse 500 (''Failed to process video: '' @ str_exn env e), files'))"

section \<open>api/index.py: the serverless handler's POST\<close>

definition api_eager :: "json list" where
  "api_eager =
     [JObj [(''format'', JStr ''mp4''), (''quality'', JStr ''auto:eco''), (''width'', JNum 1280),
            (''height'', JNum 720)],
      JObj [(''format'', JStr ''webm''), (''quality'', JStr ''auto:eco''), (''width'', JNum 1280),
            (''height'', JNum 720)]]"

definition api_poster_transformation :: "json list" where
  "api_poster_transformation =
     [JObj [(''width'', JNum 1280), (''height'', JNum 720), (''crop'', JStr ''scale'')]]"

definition api_public_id :: "env \<Rightarrow> json \<Rightarrow> exn + string" where
  \<comment> \<open>the f-string of line 77\<close>
  "api_public_id env project_name =
     (case project_name of
        JStr name \<Rightarrow> Inr (''cinematic-'' @ slug env name)
      | _ \<Rightarrow> Inl (AttributeError project_name ''lower''))"

definition do_POST_call :: "string \<Rightarrow> string \<Rightarrow> upload_call" where
  "do_POST_call temp_file_path pid =
     \<lparr>path = temp_file_path, resource_type = ''video'', public_id = pid,
      overwrite = True, eager = api_eager, eager_async = False\<rparr>"

definition do_POST_data :: "string \<Rightarrow> string \<Rightarrow> string \<Rightarrow> json" where
  "do_POST_data mp4_url webm_url poster_url =
     JObj [(''success'', JBool True),
           (''message'', JStr ''Video optimized successfully!''),
           (''optimizedFiles'', JObj
              [(''mp4'', JObj [(''url'', JStr mp4_url)]),
               (''webm'', JObj [(''url'', JStr webm_url)]),
               (''poster'', JObj [(''url'', JStr poster_url)])]),
           (''embedCode'', JStr (api_generate_embed_code mp4_url webm_url poster_url))]"

text \<open>
  The part of \<^verbatim>\<open>do_POST\<close> before the provider is called ends in one of three ways: an
  exception, a \<^verbatim>\<open>return\<close> or the end of the body (with the response written so far, if
  any), or the call of the provider.
\<close>

datatype staged = Raised exn | Finished "response option" | Calls upload_call

definition do_POST_request :: "env \<Rightarrow> fs \<Rightarrow> string + json \<Rightarrow> staged \<times> fs" where
  \<comment> \<open>lines 48-84, up to the call of the provider. The argument is the outcome of
      reading and parsing the body (lines 48-52): \<open>Inl\<close> the text of an exception
      raised there.\<close>
  "do_POST_request env files parsed =
     (case parsed of
        Inl m \<Rightarrow> (Raised (PyError m), files)
      | Inr (JObj d) \<Rightarrow>
          let video_file = py_get d ''videoFile'' (JStr []);
              project_name = py_get d ''projectName'' (JStr ''untitled'');
              customer_email = py_get d ''customerEmail'' (JStr ''anonymous'')
          in if \<not> truthy video_file
             then (case send_error 400 ''No video file provided'' of
                     Inl e \<Rightarrow> (Raised e, files)
                   | Inr resp \<Rightarrow> (Finished (Some resp), files))
             else
               (case video_file of
                  JStr v \<Rightarrow>
                    if startswith v ''data:''
                    then (case stage_data_url env files v of
                            (Inl e, files1) \<Rightarrow> (Raised e, files1)
                          | (Inr temp_file_path, files1) \<Rightarrow>
                              (case api_public_id env project_name of
                                 Inl e \<Rightarrow> (Raised e, files1)
                               | Inr pid \<Rightarrow> (Calls (do_POST_call temp_file_path pid), files1)))
                    else (Finished None, files)
                | _ \<Rightarrow> (Raised (AttributeError video_file ''startswith''), files))
      | Inr data \<Rightarrow> (Raised (AttributeError data ''get''), files))"

definition do_POST_respond :: "env \<Rightarrow> upload_result \<Rightarrow> exn + response option" where
  \<comment> \<open>lines 90-118\<close>
  "do_POST_respond env upload_result =
     (case extract_urls upload_result of
        Inl e \<Rightarrow> Inl e
      | Inr (mp4_url, webm_url) \<Rightarrow>
         (case poster env upload_result api_poster_transformation of
            Inl e \<Rightarrow> Inl e
          | Inr poster_url \<Rightarrow>
              Inr (Some (JSONResponse 200 (do_POST_data mp4_url webm_url poster_url)))))"

definition do_POST_try :: "env \<Rightarrow> fs \<Rightarrow> string + json \<Rightarrow> (exn + response option) \<times> fs" where
  \<comment> \<open>the body of the \<^verbatim>\<open>try\<close>, lines 48-118: the result is the response written,
      \<open>None\<close> when the body ends without writing one. The \<^verbatim>\<open>os.unlink\<close> of line 87
      follows the upload and is skipped when the upload raises.\<close>
  "do_POST_try env files parsed =
     (case do_POST_request env files parsed of
        (Raised e, files1) \<Rightarrow> (Inl e, files1)
      | (Finished sent, files1) \<Rightarrow> (Inr sent, files1)
      | (Calls call, files1) \<Rightarrow>
          (case upload env files1 call of
             Inl m \<Rightarrow> (Inl (PyError m), files1)
           | Inr upload_result \<Rightarrow>
               (case os_unlink files1 (path call) of
                  Inl e \<Rightarrow> (Inl e, files1)
                | Inr files2 \<Rightarrow> (do_POST_respond env upload_result, files2))))"

definition do_POST_run :: "env \<Rightarrow> fs \<Rightarrow> string + json \<Rightarrow> (exn + response option) \<times> fs" where
  \<comment> \<open>the whole method, lines 47-121: \<open>Inr\<close> the response written when the method
      returns, \<open>Inl\<close> the exception that leaves the method when the \<^verbatim>\<open>send_error\<close> of the
      \<^verbatim>\<open>except\<close> clause (line 121) raises\<close>
  "do_POST_run env files parsed =
     (case do_POST_try env files parsed of
        (Inr sent, files') \<Rightarrow> (Inr sent, files')
      | (Inl e, files') \<Rightarrow>
          (case send_error 500 (''Error processing video: '' @ str_exn env e) of
             Inl e' \<Rightarrow> (Inl e', files')
           | Inr resp \<Rightarrow> (Inr (Some resp), files')))"

definition do_POST :: "env \<Rightarrow> fs \<Rightarrow> string + json \<Rightarrow> response option \<times> fs" where
  \<comment> \<open>what the client is sent, and the files left: an exception that leaves the
      method has written nothing\<close>
  "do_POST env files parsed =
     (case do_POST_run env files parsed of
        (Inr sent, files') \<Rightarrow> (sent, files')
      | (Inl e, files') \<Rightarrow> (None, files'))"

section \<open>Observing a response\<close>

fun json_body :: "response \<Rightarrow> json option" where
  "json_body (JSONResponse c b) = Some b"
| "json_body (ErrorResponse c m) = None"

definition file_url :: "string \<Rightarrow> response \<Rightarrow> json option" where
  \<comment> \<open>\<^verbatim>\<open>optimizedFiles.<kind>.url\<close> of the body\<close>
  "file_url kind resp =
     (case json_body resp of
        None \<Rightarrow> None
      | Some b \<Rightarrow> jpath [''optimizedFiles'', kind, ''url''] b)"

definition embed_of :: "response \<Rightarrow> json option" where
  "embed_of resp = (case json_body resp of None \<Rightarrow> None | Some b \<Rightarrow> jfield ''embedCode'' b)"

text \<open>
  What is required of a response, as executable predicates: the pair of mp4 and webm
  URLs a body carries; a provider result that counts as processed successfully (a
  non-empty \<^verbatim>\<open>secure_url\<close> for the upload and for every eager derivative, and a
  non-empty poster URL built from its public id); and a success response with non-empty
  mp4, webm and poster URLs whose embed code has the webm and mp4 URLs as \<^verbatim>\<open>src\<close> of
  \<^verbatim>\<open><source>\<close> elements and the poster URL as the \<^verbatim>\<open>poster\<close> attribute.
\<close>

definition client_urls :: "response \<Rightarrow> (string \<times> string) option" where
  "client_urls resp =
     (case (file_url ''mp4'' resp, file_url ''webm'' resp) of
        (Some (JStr m), Some (JStr w)) \<Rightarrow> Some (m, w)
      | _ \<Rightarrow> None)"




section \<open>A stub provider for concrete runs\<close>

text \<open>
  A provider that gives the same answer to every upload, with a decoder that returns
  its input, a hash that is the length of the string, no lower-casing outside ASCII and
  one fixed temporary name.
\<close>

definition stub_env :: "(string + upload_result) \<Rightarrow> env" where
  "stub_env answer =
     \<lparr>upload = (\<lambda>files call. answer),
      build_url = (\<lambda>pid rt fmt tr. Inr (''https://cdn.test/'' @ pid @ ''.'' @ fmt)),
      hash_str = (\<lambda>s. int (length s)),
      hash_other = (\<lambda>v. Inl ''unhashable type''),
      unicode_lower = (\<lambda>s. s),
      b64decode = (\<lambda>s. Inr s),
      mktemp = (\<lambda>files. ''/tmp/tmp0.mp4''),
      http_exception_str = (\<lambda>c d. str_nat c @ '': '' @ d)\<rparr>"

definition stub_result :: "string option list \<Rightarrow> upload_result" where
  "stub_result eg =
     \<lparr>r_secure_url = Some ''https://cdn.test/orig.mov'', r_eager = Some eg,
      r_public_id = Some ''cinematic-demo''\<rparr>"

definition stub_form :: "string \<Rightarrow> video_form" where
  "stub_form ct =
     \<lparr>videoFile = \<lparr>content_type = Some ct, content = ''VIDEO''\<rparr>,
      projectName = ''My Project'', customerEmail = ''a@example.com''\<rparr>"

definition stub_body :: "string \<Rightarrow> string \<Rightarrow> (string \<times> json) list" where
  "stub_body video_file customer_email =
     [(''videoFile'', JStr video_file), (''projectName'', JStr ''My Project''),
      (''customerEmail'', JStr customer_email)]"

section \<open>The health check answers healthy\<close>

text \<open>
  C8. Every GET of the root path is answered with status 200 and a JSON body whose
  \<^verbatim>\<open>status\<close> field is the string \<^verbatim>\<open>healthy\<close> and whose \<^verbatim>\<open>message\<close> field is a string, in
  the FastAPI application and in the serverless handler (which answers every path so).
\<close>

theorem health_check_healthy:
  "status_code root = 200 \<and> status_code (do_GET p) = 200 \<and>
   (case json_body root of None \<Rightarrow> False
    | Some b \<Rightarrow> jfield ''status'' b = Some (JStr ''healthy'')) \<and>
   (case json_body (do_GET p) of None \<Rightarrow> False
    | Some b \<Rightarrow> jfield ''status'' b = Some (JStr ''healthy'')) \<and>
   (\<exists>b m. json_body root = Some b \<and> jfield ''message'' b = Some (JStr m)) \<and>
   (\<exists>b m. json_body (do_GET p) = Some b \<and> jfield ''message'' b = Some (JStr m))"
  by (simp add: root_def do_GET_def)

section \<open>The embed functions read only their arguments\<close>

lemma join_lines_Cons: "ls \<noteq> [] \<Longrightarrow> join_lines (l # ls) = l @ nl @ join_lines ls"
  by (cases ls) simp_all

lemma join_lines_append:
  "xs \<noteq> [] \<Longrightarrow> ys \<noteq> [] \<Longrightarrow> join_lines (xs @ ys) = join_lines xs @ nl @ join_lines ys"
proof (induction xs rule: join_lines.induct)
  case 1
  then show ?case by simp
next
  case (2 l)
  then show ?case by (simp add: join_lines_Cons)
next
  case (3 l v va)
  then show ?case by simp
qed

lemma resolve_parameters:
  "resolve (parameters m w p) g ''mp4_url'' = Inr m"
  "resolve (parameters m w p) g ''webm_url'' = Inr w"
  "resolve (parameters m w p) g ''poster_url'' = Inr p"
  by (simp_all add: resolve_def parameters_def)

lemma embed_lines_nonempty:
  "embed_head \<noteq> []" "embed_tail \<noteq> []" "api_embed_head \<noteq> []" "api_embed_tail \<noteq> []"
  by (simp_all add: embed_head_def embed_tail_def api_embed_head_def api_embed_tail_def)

lemma format_embed_fstring:
  "format_pieces (parameters m w p) g embed_fstring = Inr (generate_embed_code m w p)"
  by (simp add: embed_fstring_def generate_embed_code_def resolve_parameters
        join_lines_append join_lines_Cons embed_lines_nonempty
        poster_attr_def source_webm_def source_mp4_def)

lemma format_api_embed_fstring:
  "format_pieces (parameters m w p) g api_embed_fstring = Inr (api_generate_embed_code m w p)"
  by (simp add: api_embed_fstring_def api_generate_embed_code_def resolve_parameters
        join_lines_append join_lines_Cons embed_lines_nonempty
        poster_attr_def source_webm_def source_mp4_def)

lemma call_generate_embed_code_returns:
  "call_generate_embed_code g m w p = Inr (generate_embed_code m w p)"
  by (simp add: call_generate_embed_code_def format_embed_fstring resolve_def)

lemma call_api_generate_embed_code_returns:
  "call_api_generate_embed_code g m w p = Inr (api_generate_embed_code m w p)"
  by (simp add: call_api_generate_embed_code_def format_api_embed_fstring)

text \<open>
  C7. A call of \<^verbatim>\<open>generate_embed_code\<close> (main.py and api/index.py) resolves only the names
  of its three parameters, which are locals of the call: whatever is bound outside the
  call, before it or after it (\<open>globals\<close>, \<open>globals'\<close>), two calls with the same
  (mp4_url, webm_url, poster_url) return, without raising, the same string, and that string
  is the template with the three arguments in place of its fields.
\<close>

theorem generate_embed_code_deterministic:
  "(mp4, webm, poster_url) = (mp4', webm', poster_url') \<Longrightarrow>
   call_generate_embed_code globals mp4 webm poster_url =
     call_generate_embed_code globals' mp4' webm' poster_url' \<and>
   call_generate_embed_code globals mp4 webm poster_url =
     Inr (generate_embed_code mp4 webm poster_url) \<and>
   call_api_generate_embed_code globals mp4 webm poster_url =
     call_api_generate_embed_code globals' mp4' webm' poster_url' \<and>
   call_api_generate_embed_code globals mp4 webm poster_url =
     Inr (api_generate_embed_code mp4 webm poster_url)"
  by (simp add: call_generate_embed_code_returns call_api_generate_embed_code_returns)

theorem generate_embed_code_deterministic_witness:
  "call_generate_embed_code Map.empty ''m.mp4'' ''w.webm'' ''p.jpg'' =
     call_generate_embed_code [''mp4_url'' \<mapsto> ''other.mp4'', ''embed_code'' \<mapsto> ''stale'']
       ''m.mp4'' ''w.webm'' ''p.jpg'' \<and>
   call_generate_embed_code Map.empty ''m.mp4'' ''w.webm'' ''p.jpg'' =
     Inr (generate_embed_code ''m.mp4'' ''w.webm'' ''p.jpg'') \<and>
   call_api_generate_embed_code Map.empty ''m.mp4'' ''w.webm'' ''p.jpg'' =
     call_api_generate_embed_code [''mp4_url'' \<mapsto> ''other.mp4'', ''embed_code'' \<mapsto> ''stale'']
       ''m.mp4'' ''w.webm'' ''p.jpg'' \<and>
   call_api_generate_embed_code Map.empty ''m.mp4'' ''w.webm'' ''p.jpg'' =
     Inr (api_generate_embed_code ''m.mp4'' ''w.webm'' ''p.jpg'')"
proof -
  have h: "(''m.mp4'', ''w.webm'', ''p.jpg'') = (''m.mp4'', ''w.webm'', ''p.jpg'')"
    by (rule refl)
  show ?thesis
    by (rule generate_embed_code_deterministic [OF h])
qed

section \<open>The serverless handler on a video that is not a data URL\<close>

text \<open>
  C9. When the body of a POST to the serverless handler parses as a JSON object whose
  \<^verbatim>\<open>videoFile\<close> is a non-empty string that does not start with \<^verbatim>\<open>data:\<close>, the handler
  returns, without raising and without writing any response (and without touching the
  file system): the \<^verbatim>\<open>if\<close> of line 64 has no \<^verbatim>\<open>else\<close>.
\<close>

theorem do_POST_plain_string_no_response:
  assumes "parsed = Inr (JObj d)"
    and "map_of d ''videoFile'' = Some (JStr v)"
    and "v \<noteq> []"
    and "\<not> startswith v ''data:''"
  shows "do_POST_run env files parsed = (Inr None, files) \<and>
         do_POST env files parsed = (None, files)"
  using assms
  by (simp add: do_POST_def do_POST_run_def do_POST_try_def do_POST_request_def py_get_def)

theorem do_POST_plain_string_no_response_witness:
  "map_of (stub_body ''https://example.com/v.mp4'' ''a@example.com'') ''videoFile'' =
     Some (JStr ''https://example.com/v.mp4'') \<and>
   ''https://example.com/v.mp4'' \<noteq> [] \<and>
   \<not> startswith ''https://example.com/v.mp4'' ''data:'' \<and>
   do_POST_run (stub_env (Inl ''down'')) Map.empty
     (Inr (JObj (stub_body ''https://example.com/v.mp4'' ''a@example.com''))) =
     (Inr None, Map.empty) \<and>
   do_POST (stub_env (Inl ''down'')) Map.empty
     (Inr (JObj (stub_body ''https://example.com/v.mp4'' ''a@example.com''))) = (None, Map.empty)"
proof -
  have h1: "map_of (stub_body ''https://example.com/v.mp4'' ''a@example.com'') ''videoFile'' =
     Some (JStr ''https://example.com/v.mp4'')"
    by (simp add: stub_body_def)
  have h2: "''https://example.com/v.mp4'' \<noteq> []"
    by simp
  have h3: "\<not> startswith ''https://example.com/v.mp4'' ''data:''"
    by (simp add: startswith_def)
  from do_POST_plain_string_no_response [OF refl h1 h2 h3] h1 h2 h3 show ?thesis
    by blast
qed

section \<open>Facts about the stages of a request\<close>

lemma optimize_video_request_staged:
  "optimize_video_request env files form = (Inr call, files1) \<Longrightarrow> files1 (path call) \<noteq> None"
  by (auto simp: optimize_video_request_def optimize_video_call_def Let_def
           split: option.splits if_splits)

lemma stage_data_url_staged:
  "stage_data_url env files v = (Inr p, files1) \<Longrightarrow> files1 p \<noteq> None"
  by (auto simp: stage_data_url_def Let_def split: list.splits sum.splits)

lemma do_POST_request_staged:
  "do_POST_request env files parsed = (Calls call, files1) \<Longrightarrow> files1 (path call) \<noteq> None"
  by (auto simp: do_POST_request_def do_POST_call_def Let_def
           split: sum.splits json.splits if_splits prod.splits dest: stage_data_url_staged)

lemma optimize_video_upload_raises:
  assumes "optimize_video_request env files form = (Inr call, files1)"
    and "upload env files1 call = Inl msg"
  shows "fst (optimize_video env files form) = ErrorResponse 500 (''Failed to process video: '' @ msg)"
proof -
  from assms(1) have "files1 (path call) \<noteq> None"
    by (rule optimize_video_request_staged)
  then obtain files2 where "os_unlink files1 (path call) = Inr files2"
    by (auto simp: os_unlink_def)
  with assms show ?thesis
    by (simp add: optimize_video_def optimize_video_try_def str_exn_def)
qed

lemma optimize_video_from_url_upload_raises:
  assumes "optimize_video_from_url_request env files video_data = (Inr call, files1)"
    and "upload env files1 call = Inl msg"
  shows "fst (optimize_video_from_url env files video_data) =
           ErrorResponse 500 (''Failed to process video: '' @ msg)"
  using assms
  by (simp add: optimize_video_from_url_def optimize_video_from_url_try_def str_exn_def)

lemma latin1_append: "latin1 (a @ b) = (latin1 a \<and> latin1 b)"
  by (simp add: latin1_def)

lemma latin1_literals:
  "latin1 ''Error processing video: ''"
  "latin1 ''No video file provided''"
  "latin1 ''Upload failed''"
  by code_simp+

lemma send_error_latin1:
  "latin1 msg \<Longrightarrow> send_error c (p @ msg) =
     (if latin1 p then Inr (ErrorResponse c (p @ msg)) else Inl UnicodeEncodeError)"
  "\<not> latin1 msg \<Longrightarrow> send_error c (p @ msg) = Inl UnicodeEncodeError"
  by (simp_all add: send_error_def latin1_append)

lemma do_POST_run_upload_raises:
  assumes "do_POST_request env files parsed = (Calls call, files1)"
    and "upload env files1 call = Inl msg"
  shows "do_POST_run env files parsed =
           (if latin1 msg
            then Inr (Some (ErrorResponse 500 (''Error processing video: '' @ msg)))
            else Inl UnicodeEncodeError, files1)"
proof -
  from assms have "do_POST_try env files parsed = (Inl (PyError msg), files1)"
    by (simp add: do_POST_try_def)
  then have run: "do_POST_run env files parsed =
      (case send_error 500 (''Error processing video: '' @ msg) of
         Inl e' \<Rightarrow> (Inl e', files1)
       | Inr resp \<Rightarrow> (Inr (Some resp), files1))"
    by (simp only: do_POST_run_def prod.case sum.case str_exn_def exn.case)
  show ?thesis
  proof (cases "latin1 msg")
    case True
    then have "send_error 500 (''Error processing video: '' @ msg) =
        Inr (ErrorResponse 500 (''Error processing video: '' @ msg))"
      by (simp only: send_error_latin1(1) latin1_literals if_True)
    with True show ?thesis
      by (simp only: run sum.case if_True)
  next
    case False
    then have "send_error 500 (''Error processing video: '' @ msg) = Inl UnicodeEncodeError"
      by (rule send_error_latin1(2))
    with False show ?thesis
      by (simp only: run sum.case if_False)
  qed
qed

lemma do_POST_upload_raises:
  assumes "do_POST_request env files parsed = (Calls call, files1)"
    and "upload env files1 call = Inl msg"
    and "latin1 msg"
  shows "fst (do_POST env files parsed) =
           Some (ErrorResponse 500 (''Error processing video: '' @ msg))"
  by (simp only: do_POST_def do_POST_run_upload_raises [OF assms(1,2)] assms(3) if_True
        prod.case sum.case fst_conv)

lemma slug_stub: "slug env ''My Project'' = ''my-project''"
proof -
  have "is_ascii ''My Project''"
    by code_simp
  moreover have "replace_char (CHR '' '') (CHR ''-'') (map lower_char ''My Project'') =
      ''my-project''"
    by code_simp
  ultimately show ?thesis
    by (simp only: slug_def lower_def if_True)
qed

lemma main_public_id_stub:
  "main_public_id env ''My Project'' 13 = ''cinematic-my-project-13''"
proof -
  have "str_int (13 mod 10000) = ''13''"
    by code_simp
  then show ?thesis
    by (simp add: main_public_id_def slug_stub)
qed

lemma split_once_stub:
  "split_once (CHR '','') ''data:video/mp4;base64,QUJD'' = [''data:video/mp4;base64'', ''QUJD'']"
  by code_simp

section \<open>Facts about the success path\<close>




lemma optimize_video_data_fields:
  "file_url ''mp4'' (JSONResponse c (optimize_video_data m w p)) = Some (JStr m)"
  "file_url ''webm'' (JSONResponse c (optimize_video_data m w p)) = Some (JStr w)"
  "file_url ''poster'' (JSONResponse c (optimize_video_data m w p)) = Some (JStr p)"
  "embed_of (JSONResponse c (optimize_video_data m w p)) = Some (JStr (generate_embed_code m w p))"
  by (simp_all add: file_url_def embed_of_def optimize_video_data_def)

lemma optimize_video_from_url_data_fields:
  "file_url ''mp4'' (JSONResponse c (optimize_video_from_url_data m w p)) = Some (JStr m)"
  "file_url ''webm'' (JSONResponse c (optimize_video_from_url_data m w p)) = Some (JStr w)"
  "file_url ''poster'' (JSONResponse c (optimize_video_from_url_data m w p)) = Some (JStr p)"
  "embed_of (JSONResponse c (optimize_video_from_url_data m w p)) =
     Some (JStr (generate_embed_code m w p))"
  by (simp_all add: file_url_def embed_of_def optimize_video_from_url_data_def)

lemma do_POST_data_fields:
  "file_url ''mp4'' (JSONResponse c (do_POST_data m w p)) = Some (JStr m)"
  "file_url ''webm'' (JSONResponse c (do_POST_data m w p)) = Some (JStr w)"
  "file_url ''poster'' (JSONResponse c (do_POST_data m w p)) = Some (JStr p)"
  "embed_of (JSONResponse c (do_POST_data m w p)) = Some (JStr (api_generate_embed_code m w p))"
  by (simp_all add: file_url_def embed_of_def do_POST_data_def)

lemma optimize_video_success:
  assumes "optimize_video_request env files form = (Inr call, files1)"
    and "upload env files1 call = Inr r"
    and "extract_urls r = Inr (m, w)"
    and "poster env r main_poster_transformation = Inr p"
  shows "fst (optimize_video env files form) = JSONResponse 200 (optimize_video_data m w p)"
proof -
  from assms(1) have "files1 (path call) \<noteq> None"
    by (rule optimize_video_request_staged)
  then obtain files2 where "os_unlink files1 (path call) = Inr files2"
    by (auto simp: os_unlink_def)
  with assms show ?thesis
    by (simp add: optimize_video_def optimize_video_try_def optimize_video_respond_def)
qed

lemma optimize_video_from_url_success:
  assumes "optimize_video_from_url_request env files video_data = (Inr call, files1)"
    and "upload env files1 call = Inr r"
    and "extract_urls r = Inr (m, w)"
    and "poster env r main_poster_transformation = Inr p"
  shows "fst (optimize_video_from_url env files video_data) =
           JSONResponse 200 (optimize_video_from_url_data m w p)"
  using assms
  by (simp add: optimize_video_from_url_def optimize_video_from_url_try_def
        optimize_video_from_url_respond_def)

lemma do_POST_success:
  assumes "do_POST_request env files parsed = (Calls call, files1)"
    and "upload env files1 call = Inr r"
    and "extract_urls r = Inr (m, w)"
    and "poster env r api_poster_transformation = Inr p"
  shows "fst (do_POST env files parsed) = Some (JSONResponse 200 (do_POST_data m w p))"
proof -
  from assms(1) have "files1 (path call) \<noteq> None"
    by (rule do_POST_request_staged)
  then obtain files2 where "os_unlink files1 (path call) = Inr files2"
    by (auto simp: os_unlink_def)
  with assms show ?thesis
    by (simp add: do_POST_def do_POST_run_def do_POST_try_def do_POST_respond_def)
qed

lemma extract_urls_no_eager:
  "r_secure_url r = Some original \<Longrightarrow> r_eager r = Some [] \<Longrightarrow>
   extract_urls r = Inr (original, original)"
  by (simp add: extract_urls_def)

lemma extract_urls_one_eager:
  "r_secure_url r = Some original \<Longrightarrow> r_eager r = Some [Some u] \<Longrightarrow>
   extract_urls r = Inr (u, original)"
  by (simp add: extract_urls_def)

lemma client_urls_data:
  "client_urls (JSONResponse c (optimize_video_data m w p)) = Some (m, w)"
  "client_urls (JSONResponse c (optimize_video_from_url_data m w p)) = Some (m, w)"
  "client_urls (JSONResponse c (do_POST_data m w p)) = Some (m, w)"
  by (simp_all add: client_urls_def optimize_video_data_fields
        optimize_video_from_url_data_fields do_POST_data_fields)





lemma stub_optimize_video_request:
  "optimize_video_request (stub_env a) Map.empty (stub_form ''video/mp4'') =
     (Inr (optimize_video_call (stub_env a) (stub_form ''video/mp4'') ''/tmp/tmp0.mp4''),
      [''/tmp/tmp0.mp4'' \<mapsto> ''VIDEO''])"
  by (simp add: optimize_video_request_def stub_form_def stub_env_def startswith_def Let_def)

lemma stub_optimize_video_from_url_request:
  "optimize_video_from_url_request (stub_env a) Map.empty
       (stub_body ''data:video/mp4;base64,QUJD'' ''a@example.com'') =
     (Inr (optimize_video_from_url_call ''/tmp/tmp0.mp4'' ''cinematic-my-project-13''),
      [''/tmp/tmp0.mp4'' \<mapsto> ''QUJD''])"
  by (simp add: optimize_video_from_url_request_def stub_body_def stub_env_def startswith_def
        py_get_def url_public_id_def py_hash_def main_public_id_stub stage_data_url_def
        split_once_stub Let_def)

lemma stub_do_POST_request:
  "do_POST_request (stub_env a) Map.empty
       (Inr (JObj (stub_body ''data:video/mp4;base64,QUJD'' customer_email))) =
     (Calls (do_POST_call ''/tmp/tmp0.mp4'' ''cinematic-my-project''),
      [''/tmp/tmp0.mp4'' \<mapsto> ''QUJD''])"
  by (simp add: do_POST_request_def stub_body_def stub_env_def startswith_def
        py_get_def api_public_id_def slug_stub stage_data_url_def split_once_stub Let_def)

lemma stub_upload: "upload (stub_env a) files call = a"
  by (simp add: stub_env_def)

lemma stub_poster:
  "poster (stub_env a) (stub_result eg) tr = Inr ''https://cdn.test/cinematic-demo.jpg''"
  by (simp add: poster_def stub_env_def stub_result_def)


lemma stub_result_fields:
  "r_secure_url (stub_result eg) = Some ''https://cdn.test/orig.mov''"
  "r_eager (stub_result eg) = Some eg"
  by (simp_all add: stub_result_def)

section \<open>A failing provider call\<close>

lemma stub_failure_text_not_latin1:
  "\<not> latin1 (''Quota exceeded: 5 '' @ [CHR 0xE2, CHR 0x82, CHR 0xAC])"
  by code_simp

text \<open>
  C6. When the upload raises, the client should receive status 500 and a message that
  contains the text of the failure. Both FastAPI endpoints do so for every text
  (\<open>optimize_video_upload_raises\<close>, \<open>optimize_video_from_url_upload_raises\<close>), and the
  serverless handler does so when every character of the text is at most U+00FF
  (\<open>do_POST_upload_raises\<close>). For any other text the \<^verbatim>\<open>send_error\<close> of line 121, inside
  the \<^verbatim>\<open>except\<close> clause, raises \<^verbatim>\<open>UnicodeEncodeError\<close> itself and the client receives
  nothing: here at the failure text \<^verbatim>\<open>Quota exceeded: 5 \<close> followed by a euro sign
  (U+20AC, bytes E2 82 AC).
\<close>

theorem do_POST_provider_failure_unanswered:
  "do_POST_run (stub_env (Inl (''Quota exceeded: 5 '' @ [CHR 0xE2, CHR 0x82, CHR 0xAC])))
     Map.empty (Inr (JObj (stub_body ''data:video/mp4;base64,QUJD'' ''a@example.com''))) =
     (Inl UnicodeEncodeError, [''/tmp/tmp0.mp4'' \<mapsto> ''QUJD'']) \<and>
   fst (do_POST (stub_env (Inl (''Quota exceeded: 5 '' @ [CHR 0xE2, CHR 0x82, CHR 0xAC])))
     Map.empty (Inr (JObj (stub_body ''data:video/mp4;base64,QUJD'' ''a@example.com'')))) =
     None"
proof -
  let ?msg = "''Quota exceeded: 5 '' @ [CHR 0xE2, CHR 0x82, CHR 0xAC]"
  have run: "do_POST_run (stub_env (Inl ?msg)) Map.empty
      (Inr (JObj (stub_body ''data:video/mp4;base64,QUJD'' ''a@example.com''))) =
      (Inl UnicodeEncodeError, [''/tmp/tmp0.mp4'' \<mapsto> ''QUJD''])"
    by (simp only: do_POST_run_upload_raises [OF stub_do_POST_request stub_upload]
          stub_failure_text_not_latin1 if_False)
  then show ?thesis
    by (simp only: do_POST_def prod.case sum.case fst_conv simp_thms)
qed

section \<open>The success response\<close>



section \<open>Fallback to the original URL\<close>

text \<open>
  C10. When the provider's result has an empty eager list, the mp4 and the webm URL
  returned to the client are both the \<^verbatim>\<open>secure_url\<close> of the upload; when the list has exactly
  one entry, the mp4 URL is that entry's \<^verbatim>\<open>secure_url\<close> and the webm URL is the
  \<^verbatim>\<open>secure_url\<close> of the upload. This holds on both FastAPI endpoints and in the serverless
  handler, for every request that reaches the provider and whose poster URL is built.
\<close>

theorem eager_fallback:
  "(optimize_video_request env files form = (Inr call, files1) \<and>
      upload env files1 call = Inr r \<and> r_secure_url r = Some original \<and>
      poster env r main_poster_transformation = Inr p \<longrightarrow>
    (r_eager r = Some [] \<longrightarrow>
       client_urls (fst (optimize_video env files form)) = Some (original, original)) \<and>
    (r_eager r = Some [Some u] \<longrightarrow>
       client_urls (fst (optimize_video env files form)) = Some (u, original))) \<and>
   (optimize_video_from_url_request env files video_data = (Inr call', files1') \<and>
      upload env files1' call' = Inr r' \<and> r_secure_url r' = Some original' \<and>
      poster env r' main_poster_transformation = Inr p' \<longrightarrow>
    (r_eager r' = Some [] \<longrightarrow>
       client_urls (fst (optimize_video_from_url env files video_data)) =
         Some (original', original')) \<and>
    (r_eager r' = Some [Some u'] \<longrightarrow>
       client_urls (fst (optimize_video_from_url env files video_data)) =
         Some (u', original'))) \<and>
   (do_POST_request env files parsed = (Calls call'', files1'') \<and>
      upload env files1'' call'' = Inr r'' \<and> r_secure_url r'' = Some original'' \<and>
      poster env r'' api_poster_transformation = Inr p'' \<longrightarrow>
    (r_eager r'' = Some [] \<longrightarrow>
       Option.bind (fst (do_POST env files parsed)) client_urls =
         Some (original'', original'')) \<and>
    (r_eager r'' = Some [Some u''] \<longrightarrow>
       Option.bind (fst (do_POST env files parsed)) client_urls =
         Some (u'', original'')))"
proof (intro conjI impI; elim conjE)
  assume a: "optimize_video_request env files form = (Inr call, files1)"
    "upload env files1 call = Inr r" "r_secure_url r = Some original"
    "poster env r main_poster_transformation = Inr p"
  {
    assume "r_eager r = Some []"
    with a(3) have "extract_urls r = Inr (original, original)"
      by (rule extract_urls_no_eager)
    from optimize_video_success [OF a(1,2) this a(4)]
    show "client_urls (fst (optimize_video env files form)) = Some (original, original)"
      by (simp only: client_urls_data)
  next
    assume "r_eager r = Some [Some u]"
    with a(3) have "extract_urls r = Inr (u, original)"
      by (rule extract_urls_one_eager)
    from optimize_video_success [OF a(1,2) this a(4)]
    show "client_urls (fst (optimize_video env files form)) = Some (u, original)"
      by (simp only: client_urls_data)
  }
next
  assume a: "optimize_video_from_url_request env files video_data = (Inr call', files1')"
    "upload env files1' call' = Inr r'" "r_secure_url r' = Some original'"
    "poster env r' main_poster_transformation = Inr p'"
  {
    assume "r_eager r' = Some []"
    with a(3) have "extract_urls r' = Inr (original', original')"
      by (rule extract_urls_no_eager)
    from optimize_video_from_url_success [OF a(1,2) this a(4)]
    show "client_urls (fst (optimize_video_from_url env files video_data)) =
        Some (original', original')"
      by (simp only: client_urls_data)
  next
    assume "r_eager r' = Some [Some u']"
    with a(3) have "extract_urls r' = Inr (u', original')"
      by (rule extract_urls_one_eager)
    from optimize_video_from_url_success [OF a(1,2) this a(4)]
    show "client_urls (fst (optimize_video_from_url env files video_data)) =
        Some (u', original')"
      by (simp only: client_urls_data)
  }
next
  assume a: "do_POST_request env files parsed = (Calls call'', files1'')"
    "upload env files1'' call'' = Inr r''" "r_secure_url r'' = Some original''"
    "poster env r'' api_poster_transformation = Inr p''"
  {
    assume "r_eager r'' = Some []"
    with a(3) have "extract_urls r'' = Inr (original'', original'')"
      by (rule extract_urls_no_eager)
    from do_POST_success [OF a(1,2) this a(4)]
    show "Option.bind (fst (do_POST env files parsed)) client_urls =
        Some (original'', original'')"
      by (simp only: client_urls_data Option.bind.simps)
  next
    assume "r_eager r'' = Some [Some u'']"
    with a(3) have "extract_urls r'' = Inr (u'', original'')"
      by (rule extract_urls_one_eager)
    from do_POST_success [OF a(1,2) this a(4)]
    show "Option.bind (fst (do_POST env files parsed)) client_urls = Some (u'', original'')"
      by (simp only: client_urls_data Option.bind.simps)
  }
qed

theorem eager_fallback_witness:
  "client_urls (fst (optimize_video (stub_env (Inr (stub_result []))) Map.empty
      (stub_form ''video/mp4''))) =
     Some (''https://cdn.test/orig.mov'', ''https://cdn.test/orig.mov'') \<and>
   client_urls (fst (optimize_video_from_url (stub_env (Inr (stub_result []))) Map.empty
      (stub_body ''data:video/mp4;base64,QUJD'' ''a@example.com''))) =
     Some (''https://cdn.test/orig.mov'', ''https://cdn.test/orig.mov'') \<and>
   Option.bind (fst (do_POST (stub_env (Inr (stub_result []))) Map.empty
      (Inr (JObj (stub_body ''data:video/mp4;base64,QUJD'' ''a@example.com''))))) client_urls =
     Some (''https://cdn.test/orig.mov'', ''https://cdn.test/orig.mov'') \<and>
   client_urls (fst (optimize_video
      (stub_env (Inr (stub_result [Some ''https://cdn.test/v.mp4'']))) Map.empty
      (stub_form ''video/mp4''))) =
     Some (''https://cdn.test/v.mp4'', ''https://cdn.test/orig.mov'') \<and>
   client_urls (fst (optimize_video_from_url
      (stub_env (Inr (stub_result [Some ''https://cdn.test/v.mp4'']))) Map.empty
      (stub_body ''data:video/mp4;base64,QUJD'' ''a@example.com''))) =
     Some (''https://cdn.test/v.mp4'', ''https://cdn.test/orig.mov'') \<and>
   Option.bind (fst (do_POST
      (stub_env (Inr (stub_result [Some ''https://cdn.test/v.mp4'']))) Map.empty
      (Inr (JObj (stub_body ''data:video/mp4;base64,QUJD'' ''a@example.com''))))) client_urls =
     Some (''https://cdn.test/v.mp4'', ''https://cdn.test/orig.mov'')"
proof -
  let ?r0 = "stub_result []"
  let ?r1 = "stub_result [Some ''https://cdn.test/v.mp4'']"
  let ?o = "''https://cdn.test/orig.mov''"
  let ?p = "''https://cdn.test/cinematic-demo.jpg''"
  note none = eager_fallback
    [of "stub_env (Inr ?r0)" Map.empty "stub_form ''video/mp4''" _ _ ?r0 ?o ?p _
        "stub_body ''data:video/mp4;base64,QUJD'' ''a@example.com''" _ _ ?r0 ?o ?p _
        "Inr (JObj (stub_body ''data:video/mp4;base64,QUJD'' ''a@example.com''))" _ _ ?r0 ?o ?p]
  note one = eager_fallback
    [of "stub_env (Inr ?r1)" Map.empty "stub_form ''video/mp4''" _ _ ?r1 ?o ?p
        "''https://cdn.test/v.mp4''"
        "stub_body ''data:video/mp4;base64,QUJD'' ''a@example.com''" _ _ ?r1 ?o ?p
        "''https://cdn.test/v.mp4''"
        "Inr (JObj (stub_body ''data:video/mp4;base64,QUJD'' ''a@example.com''))" _ _ ?r1 ?o ?p
        "''https://cdn.test/v.mp4''"]
  from none one show ?thesis
    by (simp add: stub_optimize_video_request stub_optimize_video_from_url_request
          stub_do_POST_request stub_upload stub_poster stub_result_fields)
qed

section \<open>Validation errors on the FastAPI endpoints\<close>

lemma startswith_text_plain: "\<not> startswith ''text/plain'' ''video/''"
  by (simp add: startswith_def)

lemma do_POST_no_video_is_400:
  "map_of d ''videoFile'' = None \<or> map_of d ''videoFile'' = Some (JStr []) \<Longrightarrow>
   do_POST env files (Inr (JObj d)) = (Some (ErrorResponse 400 ''No video file provided''), files)"
  by (auto simp: do_POST_def do_POST_run_def do_POST_try_def do_POST_request_def py_get_def
        send_error_def latin1_literals)

lemma optimize_video_empty_file_is_uploaded:
  "optimize_video_request env files
     \<lparr>videoFile = \<lparr>content_type = Some ''video/mp4'', content = []\<rparr>,
      projectName = name, customerEmail = email\<rparr> =
   (Inr (optimize_video_call env
      \<lparr>videoFile = \<lparr>content_type = Some ''video/mp4'', content = []\<rparr>,
       projectName = name, customerEmail = email\<rparr> (mktemp env files)),
    files(mktemp env files \<mapsto> []))"
  by (simp add: optimize_video_request_def startswith_def Let_def)

text \<open>
  C1. A multipart upload whose content type does not begin with \<^verbatim>\<open>video/\<close> should be
  answered with status 400. Line 111 raises \<open>HTTPException 400\<close>, but inside the
  \<^verbatim>\<open>try\<close> whose \<^verbatim>\<open>except Exception\<close> (line 216) catches it and raises
  \<open>HTTPException 500\<close>: at a \<^verbatim>\<open>text/plain\<close> upload the client receives 500, for every
  provider and file system.
\<close>

theorem optimize_video_non_video_is_500:
  "fst (optimize_video env files (stub_form ''text/plain'')) =
     ErrorResponse 500
       (''Failed to process video: '' @ http_exception_str env 400 ''File must be a video'') \<and>
   status_code (fst (optimize_video env files (stub_form ''text/plain''))) \<noteq> 400"
  by (simp add: optimize_video_def optimize_video_try_def optimize_video_request_def
        stub_form_def startswith_text_plain str_exn_def)

text \<open>
  C2. A request without a video should be answered with status 400. The serverless
  handler does so (\<open>do_POST_no_video_is_400\<close>). On \<^verbatim>\<open>/optimize-video-url\<close> line 240 raises
  \<open>HTTPException 400\<close> inside the \<^verbatim>\<open>try\<close>, and the \<^verbatim>\<open>except Exception\<close> of line 315 turns
  it into 500: a body without \<^verbatim>\<open>videoFile\<close>, or with an empty one, is answered with 500.
  On \<^verbatim>\<open>/optimize-video\<close> an empty file is not checked at all and is staged and uploaded
  (\<open>optimize_video_empty_file_is_uploaded\<close>).
\<close>

theorem optimize_video_from_url_no_video_is_500:
  "fst (optimize_video_from_url env files []) =
     ErrorResponse 500
       (''Failed to process video: '' @ http_exception_str env 400 ''No video file provided'') \<and>
   fst (optimize_video_from_url env files [(''videoFile'', JStr [])]) =
     ErrorResponse 500
       (''Failed to process video: '' @ http_exception_str env 400 ''No video file provided'') \<and>
   status_code (fst (optimize_video_from_url env files [])) \<noteq> 400"
  by (simp add: optimize_video_from_url_def optimize_video_from_url_try_def
        optimize_video_from_url_request_def py_get_def str_exn_def)

section \<open>Temporary files\<close>

text \<open>
  \<^verbatim>\<open>/optimize-video\<close> removes its temporary file in a \<^verbatim>\<open>finally\<close>: when the name picked is
  fresh, the file system after the request is the one before it, whatever the outcome.
  \<^verbatim>\<open>/optimize-video-url\<close> changes nothing after staging, so a staged file stays.
\<close>

lemma optimize_video_cleans_up:
  assumes "files (mktemp env files) = None"
  shows "snd (optimize_video env files form) = files"
proof (cases "optimize_video_request env files form")
  case (Pair x files1)
  show ?thesis
  proof (cases x)
    case (Inl e)
    with Pair have "files1 = files"
      by (auto simp: optimize_video_request_def Let_def split: option.splits if_splits)
    with Pair Inl show ?thesis
      by (simp add: optimize_video_def optimize_video_try_def)
  next
    case (Inr call)
    with Pair have p: "path call = mktemp env files"
      and f: "files1 = files(mktemp env files \<mapsto> content (videoFile form))"
      by (auto simp: optimize_video_request_def optimize_video_call_def Let_def
               split: option.splits if_splits)
    have "files(mktemp env files := None) = files"
      using assms by (auto simp: fun_eq_iff)
    then have "os_unlink files1 (path call) = Inr files"
      by (simp add: os_unlink_def p f)
    with Pair Inr show ?thesis
      by (simp add: optimize_video_def optimize_video_try_def split: sum.splits)
  qed
qed

lemma optimize_video_from_url_keeps_files:
  "optimize_video_from_url_request env files video_data = (x, files1) \<Longrightarrow>
   snd (optimize_video_from_url env files video_data) = files1"
  by (auto simp: optimize_video_from_url_def optimize_video_from_url_try_def
           split: sum.splits prod.splits)

text \<open>
  C3. A temporary file created during a request should be gone when the request
  completes. On \<^verbatim>\<open>/optimize-video-url\<close> the \<^verbatim>\<open>os.unlink\<close> of lines 312-313 follows the
  \<^verbatim>\<open>return\<close> of line 309 and never runs: after a data URL request the file is still
  there, on success (status 200) and when the upload raises (status 500). In the
  serverless handler the \<^verbatim>\<open>os.unlink\<close> of line 87 follows the upload outside any
  \<^verbatim>\<open>finally\<close>: when the upload raises, the file is still there.
\<close>

theorem temp_file_left_behind:
  "(case optimize_video_from_url (stub_env (Inr (stub_result []))) Map.empty
           (stub_body ''data:video/mp4;base64,QUJD'' ''a@example.com'') of
      (resp, files') \<Rightarrow> status_code resp = 200 \<and> files' ''/tmp/tmp0.mp4'' = Some ''QUJD'') \<and>
   (case optimize_video_from_url (stub_env (Inl ''Upload failed'')) Map.empty
           (stub_body ''data:video/mp4;base64,QUJD'' ''a@example.com'') of
      (resp, files') \<Rightarrow> status_code resp = 500 \<and> files' ''/tmp/tmp0.mp4'' = Some ''QUJD'') \<and>
   (case do_POST (stub_env (Inl ''Upload failed'')) Map.empty
           (Inr (JObj (stub_body ''data:video/mp4;base64,QUJD'' ''a@example.com''))) of
      (sent, files') \<Rightarrow> sent = Some (ErrorResponse 500 ''Error processing video: Upload failed'') \<and>
         files' ''/tmp/tmp0.mp4'' = Some ''QUJD'')"
proof (intro conjI)
  let ?body = "stub_body ''data:video/mp4;base64,QUJD'' ''a@example.com''"
  let ?ok = "stub_env (Inr (stub_result []))"
  let ?down = "stub_env (Inl ''Upload failed'')"
  have "snd (optimize_video_from_url ?ok Map.empty ?body) = [''/tmp/tmp0.mp4'' \<mapsto> ''QUJD'']"
    by (rule optimize_video_from_url_keeps_files [OF stub_optimize_video_from_url_request])
  moreover have "fst (optimize_video_from_url ?ok Map.empty ?body) =
      JSONResponse 200 (optimize_video_from_url_data ''https://cdn.test/orig.mov''
        ''https://cdn.test/orig.mov'' ''https://cdn.test/cinematic-demo.jpg'')"
    by (rule optimize_video_from_url_success [OF stub_optimize_video_from_url_request stub_upload
          extract_urls_no_eager [OF stub_result_fields] stub_poster])
  ultimately show "case optimize_video_from_url ?ok Map.empty ?body of
      (resp, files') \<Rightarrow> status_code resp = 200 \<and> files' ''/tmp/tmp0.mp4'' = Some ''QUJD''"
    by (simp add: case_prod_beta)
  have "snd (optimize_video_from_url ?down Map.empty ?body) = [''/tmp/tmp0.mp4'' \<mapsto> ''QUJD'']"
    by (rule optimize_video_from_url_keeps_files [OF stub_optimize_video_from_url_request])
  moreover have "fst (optimize_video_from_url ?down Map.empty ?body) =
      ErrorResponse 500 (''Failed to process video: '' @ ''Upload failed'')"
    by (rule optimize_video_from_url_upload_raises [OF stub_optimize_video_from_url_request
          stub_upload])
  ultimately show "case optimize_video_from_url ?down Map.empty ?body of
      (resp, files') \<Rightarrow> status_code resp = 500 \<and> files' ''/tmp/tmp0.mp4'' = Some ''QUJD''"
    by (simp add: case_prod_beta)
  show "case do_POST ?down Map.empty (Inr (JObj ?body)) of
      (sent, files') \<Rightarrow> sent = Some (ErrorResponse 500 ''Error processing video: Upload failed'') \<and>
         files' ''/tmp/tmp0.mp4'' = Some ''QUJD''"
    by (simp only: do_POST_def do_POST_run_upload_raises [OF stub_do_POST_request stub_upload]
          latin1_literals if_True prod.case sum.case)
       simp
qed

section \<open>The object identifier\<close>

text \<open>
  Both FastAPI endpoints upload under \<^verbatim>\<open>cinematic-<slug>-<hash(email) % 10000>\<close> with
  \<^verbatim>\<open>overwrite=True\<close>; the serverless handler uploads under \<^verbatim>\<open>cinematic-<slug>\<close> with
  \<^verbatim>\<open>overwrite=True\<close>, where \<^verbatim>\<open><slug>\<close> is the project name lower-cased with spaces
  replaced by hyphens.
\<close>

lemma optimize_video_call_identifier:
  "public_id (optimize_video_call env form p) =
     ''cinematic-'' @ slug env (projectName form) @ ''-'' @
       str_int (hash_str env (customerEmail form) mod 10000) \<and>
   overwrite (optimize_video_call env form p)"
  by (simp add: optimize_video_call_def main_public_id_def)

lemma optimize_video_from_url_call_identifier:
  assumes "optimize_video_from_url_request env files video_data = (Inr call, files1)"
  shows "\<exists>name h. py_get video_data ''projectName'' (JStr ''untitled'') = JStr name \<and>
           py_hash env (py_get video_data ''customerEmail'' (JStr ''anonymous'')) = Inr h \<and>
           public_id call = ''cinematic-'' @ slug env name @ ''-'' @ str_int (h mod 10000) \<and>
           overwrite call"
  using assms
  by (auto simp: optimize_video_from_url_request_def optimize_video_from_url_call_def
        url_public_id_def main_public_id_def Let_def
        split: if_splits json.splits sum.splits prod.splits)

lemma do_POST_call_identifier:
  assumes "do_POST_request env files (Inr (JObj d)) = (Calls call, files1)"
  shows "\<exists>name. py_get d ''projectName'' (JStr ''untitled'') = JStr name \<and>
           public_id call = ''cinematic-'' @ slug env name \<and> overwrite call"
  using assms
  by (auto simp: do_POST_request_def do_POST_call_def api_public_id_def Let_def
        split: if_splits json.splits sum.splits prod.splits)

text \<open>
  C5. The identifier should be derived from the project name together with a hash of
  the customer email on every upload path. The serverless handler reads
  \<^verbatim>\<open>customerEmail\<close> (line 57) and never uses it: for the project \<^verbatim>\<open>My Project\<close> it uploads
  under \<^verbatim>\<open>cinematic-my-project\<close> whatever the email is, where \<^verbatim>\<open>/optimize-video-url\<close>
  uploads under \<^verbatim>\<open>cinematic-my-project-13\<close> (with a stub hash of 13 for the email).
\<close>

theorem do_POST_identifier_without_email_hash:
  "fst (do_POST_request (stub_env a) Map.empty
          (Inr (JObj (stub_body ''data:video/mp4;base64,QUJD'' ''a@example.com'')))) =
     Calls (do_POST_call ''/tmp/tmp0.mp4'' ''cinematic-my-project'') \<and>
   fst (do_POST_request (stub_env a) Map.empty
          (Inr (JObj (stub_body ''data:video/mp4;base64,QUJD'' ''someone.else@example.org'')))) =
     Calls (do_POST_call ''/tmp/tmp0.mp4'' ''cinematic-my-project'') \<and>
   fst (optimize_video_from_url_request (stub_env a) Map.empty
          (stub_body ''data:video/mp4;base64,QUJD'' ''a@example.com'')) =
     Inr (optimize_video_from_url_call ''/tmp/tmp0.mp4'' ''cinematic-my-project-13'')"
  by (simp add: stub_do_POST_request stub_optimize_video_from_url_request)

end
